theory Spec2Isabelle
  imports Complex_Main
begin

section \<open>Numbers, vectors and quaternions\<close>

text \<open>
  The flight model is the physics block of the per-frame callback of the \<open>Plane\<close>
  component. Every JavaScript \<open>number\<close> is modelled as a \<^typ>\<open>real\<close>: arithmetic is
  exact, there is no rounding, no NaN and no infinity. A statement "within floating-point
  tolerance" is therefore read as an exact equation over the reals, and a division whose
  divisor is zero is excluded by a hypothesis wherever a result depends on it. What the
  doubles of the program do beyond that (rounding that accumulates over many frames,
  overflow, NaN) cannot be expressed here, and no statement below is about it.

  \<open>Vector3\<close> and \<open>Quaternion\<close> are the classes of the three.js library; the operations
  below are the ones the callback calls, each with the arithmetic of the library method of
  the same name. The methods mutate their receiver; the model returns the new value.
\<close>

datatype Vector3 = Vec3 (vx: real) (vy: real) (vz: real)

datatype Quaternion = Quat (qx: real) (qy: real) (qz: real) (qw: real)

fun add3 :: "Vector3 \<Rightarrow> Vector3 \<Rightarrow> Vector3" where
  "add3 (Vec3 a b c) (Vec3 d e f) = Vec3 (a + d) (b + e) (c + f)"

fun multiplyScalar :: "Vector3 \<Rightarrow> real \<Rightarrow> Vector3" where
  "multiplyScalar (Vec3 a b c) s = Vec3 (a * s) (b * s) (c * s)"

fun length3 :: "Vector3 \<Rightarrow> real" where
  "length3 (Vec3 a b c) = sqrt (a * a + b * b + c * c)"

text \<open>
  \<open>normalize\<close> (here \<open>normalize3\<close>) is \<open>divideScalar(length() || 1)\<close>, and \<open>divideScalar(s)\<close> is
  \<open>multiplyScalar(1 / s)\<close>: a vector of length zero is divided by 1.
\<close>

definition normalize3 :: "Vector3 \<Rightarrow> Vector3" where
  "normalize3 v = multiplyScalar v (1 / (if length3 v = 0 then 1 else length3 v))"

fun lerp3 :: "Vector3 \<Rightarrow> Vector3 \<Rightarrow> real \<Rightarrow> Vector3" where
  "lerp3 (Vec3 a b c) (Vec3 d e f) alpha =
     Vec3 (a + (d - a) * alpha) (b + (e - b) * alpha) (c + (f - c) * alpha)"

fun dot3 :: "Vector3 \<Rightarrow> Vector3 \<Rightarrow> real" where
  "dot3 (Vec3 a b c) (Vec3 d e f) = a * d + b * e + c * f"

text \<open>
  \<open>applyQuaternion\<close> computes \<open>v + w * t + cross(q.xyz, t)\<close> with
  \<open>t = 2 * cross(q.xyz, v)\<close>.
\<close>

fun applyQuaternion :: "Vector3 \<Rightarrow> Quaternion \<Rightarrow> Vector3" where
  "applyQuaternion (Vec3 a b c) (Quat x y z w) =
     (let tx = 2 * (y * c - z * b);
          ty = 2 * (z * a - x * c);
          tz = 2 * (x * b - y * a)
      in Vec3 (a + w * tx + y * tz - z * ty)
              (b + w * ty + z * tx - x * tz)
              (c + w * tz + x * ty - y * tx))"

fun setFromAxisAngle :: "Vector3 \<Rightarrow> real \<Rightarrow> Quaternion" where
  "setFromAxisAngle (Vec3 a b c) angle =
     (let halfAngle = angle / 2; s = sin halfAngle
      in Quat (a * s) (b * s) (c * s) (cos halfAngle))"

fun multiply :: "Quaternion \<Rightarrow> Quaternion \<Rightarrow> Quaternion" where
  "multiply (Quat ax ay az aw) (Quat bx by bz bw) =
     Quat (ax * bw + aw * bx + ay * bz - az * by)
          (ay * bw + aw * by + az * bx - ax * bz)
          (az * bw + aw * bz + ax * by - ay * bx)
          (aw * bw - ax * bx - ay * by - az * bz)"

text \<open>
  \<open>Math.atan2\<close> on the reals (the signed zeros of IEEE arithmetic have no counterpart)
  and \<open>MathUtils.clamp\<close>.
\<close>

definition atan2 :: "real \<Rightarrow> real \<Rightarrow> real" where
  "atan2 b a =
     (if 0 < a then arctan (b / a)
      else if a < 0 then (if 0 \<le> b then arctan (b / a) + pi else arctan (b / a) - pi)
      else if 0 < b then pi / 2
      else if b < 0 then - pi / 2
      else 0)"

definition clamp :: "real \<Rightarrow> real \<Rightarrow> real \<Rightarrow> real" where
  "clamp v lo hi = max lo (min hi v)"

text \<open>
  \<open>new Euler().setFromQuaternion(q).toArray()\<close>: the rotation matrix of the quaternion
  (\<open>Matrix4.makeRotationFromQuaternion\<close>) read back in the default order XYZ
  (\<open>Euler.setFromRotationMatrix\<close>); only the matrix entries that order reads are
  computed. The result is the triple \<open>(x, y, z)\<close>.
\<close>

fun setFromQuaternion :: "Quaternion \<Rightarrow> real \<times> real \<times> real" where
  "setFromQuaternion (Quat x y z w) =
     (let x2 = x + x; y2 = y + y; z2 = z + z;
          xx = x * x2; xy = x * y2; xz = x * z2;
          yy = y * y2; yz = y * z2; zz = z * z2;
          wx = w * x2; wy = w * y2; wz = w * z2;
          m11 = 1 - (yy + zz); m12 = xy - wz; m13 = xz + wy;
          m22 = 1 - (xx + zz); m23 = yz - wx;
          m32 = yz + wx; m33 = 1 - (xx + yy);
          ey = arcsin (clamp m13 (- 1) 1)
      in if \<bar>m13\<bar> < 0.9999999
         then (atan2 (- m23) m33, ey, atan2 (- m12) m11)
         else (atan2 m32 m22, ey, 0))"


section \<open>Constants and data\<close>

definition MAX_THRUST :: real where "MAX_THRUST = 0.5"
definition GRAVITY :: real where "GRAVITY = 0.08"
definition LIFT_COEFFICIENT :: real where "LIFT_COEFFICIENT = 0.002"
definition DRAG_COEFFICIENT :: real where "DRAG_COEFFICIENT = 0.0005"
definition ROTATION_SPEED :: real where "ROTATION_SPEED = 0.02"
definition MIN_TAKEOFF_SPEED :: real where "MIN_TAKEOFF_SPEED = 0.8"
definition MAX_SPEED :: real where "MAX_SPEED = 4.0"

text \<open>
  \<open>AircraftConfig\<close> with the fields the physics reads (id, name, type, description, colour
  and maxAltitude only feed the presentation).
\<close>

record AircraftConfig =
  thrustMult :: real
  liftMult :: real
  dragMult :: real
  turnSpeedMult :: real
  maxSpeedMult :: real
  engineCount :: real

record ControlState =
  pitch :: real
  roll :: real
  yaw :: real
  throttles :: "real list"
  brake :: bool
  flaps :: real
  gear :: bool

text \<open>
  The four \<open>useRef\<close> cells of the component that hold the physics state. \<open>speed\<close> is a
  cell like the others: it is overwritten at the start of every frame and read again when
  the telemetry is emitted.
\<close>

record PlaneRefs =
  velocity :: Vector3
  speed :: real
  position :: Vector3
  quaternion :: Quaternion

text \<open>
  The state the \<open>useEffect\<close> hook sets on mount: on the runway, at rest, with the
  quaternion of \<open>Euler(0, 0, 0)\<close>; \<open>speed\<close> starts as \<open>useRef(0)\<close>.
\<close>

definition initial_refs :: PlaneRefs where
  "initial_refs =
     \<lparr>velocity = Vec3 0 0 0, speed = 0, position = Vec3 0 0.6 0, quaternion = Quat 0 0 0 1\<rparr>"

text \<open>
  \<open>FlightData\<close>, the object handed to \<open>onUpdate\<close>. Its fields carry the prefix \<open>fd_\<close>
  (several share their name with a field of \<open>ControlState\<close>).
\<close>

record FlightData =
  fd_position :: "real \<times> real \<times> real"
  fd_rotation :: "real \<times> real \<times> real"
  fd_velocity :: real
  fd_altitude :: real
  fd_throttles :: "real list"
  fd_fuel :: real
  fd_isGearDown :: bool
  fd_flapsValue :: real
  fd_brake :: bool
  fd_pitchInput :: real
  fd_rollInput :: real
  fd_yawInput :: real


section \<open>The frame callback\<close>

subsection \<open>Thrust and differential yaw\<close>

text \<open>
  The \<open>forEach\<close> over \<open>controls.throttles\<close>, with the index \<open>i\<close> and the two accumulators
  \<open>totalThrustPercent\<close> and \<open>yawMoment\<close>. An engine whose index is not below
  \<open>engineCount\<close> is skipped.
\<close>

fun throttle_loop :: "real \<Rightarrow> real list \<Rightarrow> nat \<Rightarrow> real \<times> real \<Rightarrow> real \<times> real" where
  "throttle_loop ec [] i acc = acc"
| "throttle_loop ec (val # vals) i (totalThrustPercent, yawMoment) =
     (if real i \<ge> ec then throttle_loop ec vals (Suc i) (totalThrustPercent, yawMoment)
      else throttle_loop ec vals (Suc i)
             (totalThrustPercent + val,
              if ec > 1 then yawMoment + ((real i / (ec - 1)) * 2 - 1) * val
              else yawMoment))"

definition totalThrustPercent :: "AircraftConfig \<Rightarrow> ControlState \<Rightarrow> real" where
  "totalThrustPercent config controls =
     fst (throttle_loop (engineCount config) (throttles controls) 0 (0, 0))"

definition yawMoment :: "AircraftConfig \<Rightarrow> ControlState \<Rightarrow> real" where
  "yawMoment config controls =
     snd (throttle_loop (engineCount config) (throttles controls) 0 (0, 0))"

definition avgThrottle :: "AircraftConfig \<Rightarrow> ControlState \<Rightarrow> real" where
  "avgThrottle config controls =
     totalThrustPercent config controls / max 1 (engineCount config)"

text \<open>
  The brake branch assigns the local \<open>thrustVal\<close> and the cell \<open>speed\<close>; the pair is the
  local and the cells after the \<open>if\<close>.
\<close>

definition brake_branch :: "ControlState \<Rightarrow> real \<times> PlaneRefs \<Rightarrow> real \<times> PlaneRefs" where
  "brake_branch controls tr =
     (case tr of (thrustVal, r) \<Rightarrow>
        if brake controls \<and> vy (position r) < 1.0
        then (0, r\<lparr>speed := speed r * 0.95\<rparr>)
        else (thrustVal, r))"


subsection \<open>Forces\<close>

definition thrustVal0 :: "AircraftConfig \<Rightarrow> ControlState \<Rightarrow> real" where
  "thrustVal0 config controls =
     (avgThrottle config controls / 100) * MAX_THRUST * thrustMult config"

definition frame_forward :: "PlaneRefs \<Rightarrow> Vector3" where
  "frame_forward r = applyQuaternion (Vec3 0 0 (- 1)) (quaternion r)"

definition frame_up :: "PlaneRefs \<Rightarrow> Vector3" where
  "frame_up r = applyQuaternion (Vec3 0 1 0) (quaternion r)"

definition frame_right :: "PlaneRefs \<Rightarrow> Vector3" where
  "frame_right r = applyQuaternion (Vec3 1 0 0) (quaternion r)"

text \<open>
  The callback up to and including the brake branch: \<open>speed.current\<close> is read off the
  velocity, \<open>thrustVal\<close> is computed from the throttles, then the branch runs.
\<close>

definition after_brake :: "AircraftConfig \<Rightarrow> ControlState \<Rightarrow> PlaneRefs \<Rightarrow> real \<times> PlaneRefs" where
  "after_brake config controls r0 =
     brake_branch controls (thrustVal0 config controls, r0\<lparr>speed := length3 (velocity r0)\<rparr>)"

definition gravityVector :: "real \<Rightarrow> Vector3" where
  "gravityVector delta = Vec3 0 (- GRAVITY * delta * 60) 0"

definition maxSpeedForCalc :: "AircraftConfig \<Rightarrow> real" where
  "maxSpeedForCalc config = MAX_SPEED * maxSpeedMult config"

definition liftFactor :: "AircraftConfig \<Rightarrow> ControlState \<Rightarrow> PlaneRefs \<Rightarrow> real" where
  "liftFactor config controls r =
     (speed r / maxSpeedForCalc config) * (1 + flaps controls * 0.3)"

definition effectiveLift :: "AircraftConfig \<Rightarrow> ControlState \<Rightarrow> PlaneRefs \<Rightarrow> real" where
  "effectiveLift config controls r =
     max 0 (liftFactor config controls r * LIFT_COEFFICIENT * speed r * 1000 * liftMult config)"

definition liftVector :: "AircraftConfig \<Rightarrow> ControlState \<Rightarrow> Vector3 \<Rightarrow> real \<Rightarrow> PlaneRefs \<Rightarrow> Vector3" where
  "liftVector config controls up delta r =
     multiplyScalar up (effectiveLift config controls r * delta)"

definition dragVal :: "AircraftConfig \<Rightarrow> ControlState \<Rightarrow> PlaneRefs \<Rightarrow> real" where
  "dragVal config controls r =
     (speed r * speed r) * DRAG_COEFFICIENT * dragMult config
       + (if gear controls then 0.001 else 0) + (flaps controls * 0.002)"

definition dragVector :: "AircraftConfig \<Rightarrow> ControlState \<Rightarrow> PlaneRefs \<Rightarrow> Vector3" where
  "dragVector config controls r =
     multiplyScalar (normalize3 (velocity r)) (- dragVal config controls r)"

definition isOnGround :: "PlaneRefs \<Rightarrow> bool" where
  "isOnGround r \<longleftrightarrow> vy (position r) \<le> 0.6"

text \<open>The four \<open>velocity.current.add\<close> calls, in the order of the source.\<close>

definition integrate_velocity ::
  "Vector3 \<Rightarrow> Vector3 \<Rightarrow> Vector3 \<Rightarrow> Vector3 \<Rightarrow> real \<Rightarrow> PlaneRefs \<Rightarrow> PlaneRefs" where
  "integrate_velocity thrustVector gravityV liftV dragV delta r =
     r\<lparr>velocity :=
         add3 (add3 (add3 (add3 (velocity r) (multiplyScalar thrustVector delta)) gravityV)
                 liftV) dragV\<rparr>"

text \<open>The callback up to and including the velocity integration.\<close>

definition after_forces :: "AircraftConfig \<Rightarrow> ControlState \<Rightarrow> real \<Rightarrow> PlaneRefs \<Rightarrow> PlaneRefs" where
  "after_forces config controls delta r0 =
     (case after_brake config controls r0 of (thrustVal, r2) \<Rightarrow>
        integrate_velocity
          (multiplyScalar (frame_forward r0) thrustVal)
          (gravityVector delta)
          (liftVector config controls (frame_up r0) delta r2)
          (dragVector config controls r2)
          delta r2)"

text \<open>The drag vector of a frame: \<open>dragVector\<close> on the cells as the brake branch leaves them.\<close>

definition frame_dragVector :: "AircraftConfig \<Rightarrow> ControlState \<Rightarrow> PlaneRefs \<Rightarrow> Vector3" where
  "frame_dragVector config controls r0 =
     dragVector config controls (snd (after_brake config controls r0))"

text \<open>
  For comparison, the integration in the words of the specification, "thrust and drag are
  scaled by dt at application; gravity and lift are pre-scaled by dt": the same four
  additions with the drag vector multiplied by \<open>delta\<close> as the thrust vector is.
\<close>

definition integrate_velocity_spec ::
  "Vector3 \<Rightarrow> Vector3 \<Rightarrow> Vector3 \<Rightarrow> Vector3 \<Rightarrow> real \<Rightarrow> PlaneRefs \<Rightarrow> PlaneRefs" where
  "integrate_velocity_spec thrustVector gravityV liftV dragV delta r =
     r\<lparr>velocity :=
         add3 (add3 (add3 (add3 (velocity r) (multiplyScalar thrustVector delta)) gravityV)
                 liftV) (multiplyScalar dragV delta)\<rparr>"

definition after_forces_spec ::
  "AircraftConfig \<Rightarrow> ControlState \<Rightarrow> real \<Rightarrow> PlaneRefs \<Rightarrow> PlaneRefs" where
  "after_forces_spec config controls delta r0 =
     (case after_brake config controls r0 of (thrustVal, r2) \<Rightarrow>
        integrate_velocity_spec
          (multiplyScalar (frame_forward r0) thrustVal)
          (gravityVector delta)
          (liftVector config controls (frame_up r0) delta r2)
          (dragVector config controls r2)
          delta r2)"

subsection \<open>Ground contact, rotation, stability and position\<close>

definition ground_clamp :: "PlaneRefs \<Rightarrow> PlaneRefs" where
  "ground_clamp r =
     (let v1 = (if vy (velocity r) < 0 then Vec3 (vx (velocity r)) 0 (vz (velocity r))
                else velocity r)
      in r\<lparr>velocity := multiplyScalar v1 0.995,
            position := Vec3 (vx (position r)) 0.6 (vz (position r))\<rparr>)"

definition controlAuthority :: "AircraftConfig \<Rightarrow> PlaneRefs \<Rightarrow> real" where
  "controlAuthority config r =
     min (speed r / MIN_TAKEOFF_SPEED) 1.5 * ROTATION_SPEED * turnSpeedMult config"

definition pitchAmt :: "AircraftConfig \<Rightarrow> ControlState \<Rightarrow> real \<Rightarrow> PlaneRefs \<Rightarrow> real" where
  "pitchAmt config controls delta r = pitch controls * controlAuthority config r * delta * 60"

definition rollAmt :: "AircraftConfig \<Rightarrow> ControlState \<Rightarrow> real \<Rightarrow> PlaneRefs \<Rightarrow> real" where
  "rollAmt config controls delta r =
     - roll controls * controlAuthority config r * 1.5 * delta * 60"

definition diffThrustFactor :: real where "diffThrustFactor = 0.0005"

definition totalYawInput :: "AircraftConfig \<Rightarrow> ControlState \<Rightarrow> real" where
  "totalYawInput config controls =
     - yaw controls + (yawMoment config controls * diffThrustFactor)"

definition yawAmt :: "AircraftConfig \<Rightarrow> ControlState \<Rightarrow> real \<Rightarrow> bool \<Rightarrow> PlaneRefs \<Rightarrow> real" where
  "yawAmt config controls delta onGround r =
     totalYawInput config controls
       * (if onGround then 0.02 else controlAuthority config r * 0.5) * delta * 60"

text \<open>
  The three \<open>quaternion.current.multiply\<close> calls: pitch, then yaw, then roll. The
  callback does not call \<open>normalize\<close> on the result.
\<close>

definition rotation_control ::
  "AircraftConfig \<Rightarrow> ControlState \<Rightarrow> real \<Rightarrow> bool \<Rightarrow> Vector3 \<Rightarrow> Vector3 \<Rightarrow> Vector3
     \<Rightarrow> PlaneRefs \<Rightarrow> PlaneRefs" where
  "rotation_control config controls delta onGround forward up right r =
     (let pitchQuat = setFromAxisAngle right (pitchAmt config controls delta r);
          rollQuat = setFromAxisAngle forward (rollAmt config controls delta r);
          yawQuat = setFromAxisAngle up (yawAmt config controls delta onGround r)
      in r\<lparr>quaternion :=
             multiply (multiply (multiply (quaternion r) pitchQuat) yawQuat) rollQuat\<rparr>)"

definition stability :: "real \<Rightarrow> bool \<Rightarrow> Vector3 \<Rightarrow> PlaneRefs \<Rightarrow> PlaneRefs" where
  "stability delta onGround forward r =
     (if \<not> onGround \<and> speed r > 0.1
      then r\<lparr>velocity := lerp3 (velocity r) (multiplyScalar forward (speed r)) (delta * 0.5)\<rparr>
      else r)"

definition integrate_position :: "real \<Rightarrow> PlaneRefs \<Rightarrow> PlaneRefs" where
  "integrate_position delta r =
     r\<lparr>position := add3 (position r) (multiplyScalar (velocity r) (delta * 60))\<rparr>"

text \<open>
  Section 2 of the callback, "Physics Calculation", from the frame basis to the position
  update. The component is taken to be mounted (\<open>ref.current\<close> is set), so the early
  return of the first line is not taken.
\<close>

definition physics_calculation ::
  "AircraftConfig \<Rightarrow> ControlState \<Rightarrow> real \<Rightarrow> PlaneRefs \<Rightarrow> PlaneRefs" where
  "physics_calculation config controls delta r0 =
     (let onGround = isOnGround r0;
          r3 = after_forces config controls delta r0;
          r4 = (if onGround then ground_clamp r3 else r3);
          r5 = rotation_control config controls delta onGround
                 (frame_forward r0) (frame_up r0) (frame_right r0) r4;
          r6 = stability delta onGround (frame_forward r0) r5
      in integrate_position delta r6)"

text \<open>The object passed to \<open>onUpdate\<close> at the end of the callback.\<close>

definition onUpdate_data :: "ControlState \<Rightarrow> PlaneRefs \<Rightarrow> FlightData" where
  "onUpdate_data controls r =
     \<lparr>fd_position = (vx (position r), vy (position r), vz (position r)),
      fd_rotation = setFromQuaternion (quaternion r),
      fd_velocity = speed r,
      fd_altitude = vy (position r),
      fd_throttles = throttles controls,
      fd_fuel = 100,
      fd_isGearDown = gear controls,
      fd_flapsValue = flaps controls,
      fd_brake = brake controls,
      fd_pitchInput = pitch controls,
      fd_rollInput = roll controls,
      fd_yawInput = yaw controls\<rparr>"

text \<open>
  One frame: the cells after the physics calculation and the telemetry emitted from them.
  The animations and the camera placement between the two do not write the cells.
\<close>

definition useFrame ::
  "AircraftConfig \<Rightarrow> ControlState \<Rightarrow> real \<Rightarrow> PlaneRefs \<Rightarrow> PlaneRefs \<times> FlightData" where
  "useFrame config controls delta r0 =
     (let r = physics_calculation config controls delta r0
      in (r, onUpdate_data controls r))"

text \<open>
  A flight is a sequence of frames, each with its own controls and elapsed time, on one
  aircraft configuration.
\<close>

fun run_frames :: "AircraftConfig \<Rightarrow> (ControlState \<times> real) list \<Rightarrow> PlaneRefs \<Rightarrow> PlaneRefs" where
  "run_frames config [] r = r"
| "run_frames config ((controls, delta) # ticks) r =
     run_frames config ticks (physics_calculation config controls delta r)"


subsection \<open>Input conditions\<close>

text \<open>Neutral controls: the three axes centred and every throttle at 0.\<close>

definition neutral :: "ControlState \<Rightarrow> bool" where
  "neutral controls \<longleftrightarrow>
     pitch controls = 0 \<and> roll controls = 0 \<and> yaw controls = 0
     \<and> (\<forall>t \<in> set (throttles controls). t = 0)"


section \<open>Differential thrust\<close>

lemma throttle_loop_no_yaw:
  "ec \<le> 1 \<Longrightarrow> snd (throttle_loop ec vals i (t, ym)) = ym"
  by (induction vals arbitrary: i t ym) auto

lemma throttle_loop_skip:
  "ec \<le> real i \<Longrightarrow> throttle_loop ec vals i acc = acc"
proof (induction vals arbitrary: i)
  case Nil
  then show ?case by simp
next
  case (Cons val vals)
  obtain t ym where acc: "acc = (t, ym)" by (cases acc)
  from Cons.prems have "ec \<le> real (Suc i)" by simp
  with Cons.IH Cons.prems acc show ?case by simp
qed

lemma throttle_loop_zero:
  "\<forall>t \<in> set vals. t = 0 \<Longrightarrow> throttle_loop ec vals i (a, b) = (a, b)"
  by (induction vals arbitrary: i) auto

text \<open>
  C8. On a configuration with \<open>engineCount = 1\<close> the yaw moment computed by the throttle
  loop is 0, whatever the throttle sequence holds (any length, any values, in particular
  values in [0, 100]).
\<close>

theorem single_engine_yaw_immunity:
  "engineCount config = 1 \<Longrightarrow> yawMoment config controls = 0"
  by (simp add: yawMoment_def throttle_loop_no_yaw)

theorem single_engine_yaw_immunity_witness:
  "engineCount \<lparr>thrustMult = 1, liftMult = 1, dragMult = 1, turnSpeedMult = 1,
       maxSpeedMult = 1, engineCount = 1\<rparr> = 1
   \<and> yawMoment \<lparr>thrustMult = 1, liftMult = 1, dragMult = 1, turnSpeedMult = 1,
       maxSpeedMult = 1, engineCount = 1\<rparr>
       \<lparr>pitch = 0, roll = 0, yaw = 0, throttles = [100, 40], brake = False, flaps = 0,
        gear = True\<rparr> = 0"
  using single_engine_yaw_immunity
    [of "\<lparr>thrustMult = 1, liftMult = 1, dragMult = 1, turnSpeedMult = 1,
       maxSpeedMult = 1, engineCount = 1\<rparr>"
        "\<lparr>pitch = 0, roll = 0, yaw = 0, throttles = [100, 40], brake = False, flaps = 0,
        gear = True\<rparr>"]
  by simp

text \<open>
  C7. On a configuration with two engines, throttle \<open>T\<close> on engine 0 and 0 on engine 1
  gives the yaw moment \<open>- T\<close>, and 0 on engine 0 and \<open>T\<close> on engine 1 gives \<open>T\<close>: equal
  in magnitude and opposite in sign, for every \<open>T\<close> (in particular in [0, 100]). Entries
  of the throttle sequence behind the second (\<open>rest\<close>) are ignored.
\<close>

theorem symmetric_differential_thrust:
  "engineCount config = 2 \<Longrightarrow>
     yawMoment config (controls\<lparr>throttles := T # 0 # rest\<rparr>) = - T
     \<and> yawMoment config (controls\<lparr>throttles := 0 # T # rest\<rparr>) = T
     \<and> yawMoment config (controls\<lparr>throttles := T # 0 # rest\<rparr>)
         = - yawMoment config (controls\<lparr>throttles := 0 # T # rest\<rparr>)
     \<and> \<bar>yawMoment config (controls\<lparr>throttles := T # 0 # rest\<rparr>)\<bar>
         = \<bar>yawMoment config (controls\<lparr>throttles := 0 # T # rest\<rparr>)\<bar>"
  by (simp add: yawMoment_def throttle_loop_skip)

theorem symmetric_differential_thrust_witness:
  "engineCount \<lparr>thrustMult = 2.5, liftMult = 0.8, dragMult = 0.6, turnSpeedMult = 1.8,
       maxSpeedMult = 2.5, engineCount = 2\<rparr> = 2
   \<and> yawMoment \<lparr>thrustMult = 2.5, liftMult = 0.8, dragMult = 0.6, turnSpeedMult = 1.8,
         maxSpeedMult = 2.5, engineCount = 2\<rparr>
        \<lparr>pitch = 0, roll = 0, yaw = 0, throttles = [75, 0, 0, 0], brake = False, flaps = 0,
         gear = True\<rparr> = - 75
   \<and> yawMoment \<lparr>thrustMult = 2.5, liftMult = 0.8, dragMult = 0.6, turnSpeedMult = 1.8,
         maxSpeedMult = 2.5, engineCount = 2\<rparr>
        \<lparr>pitch = 0, roll = 0, yaw = 0, throttles = [0, 75, 0, 0], brake = False, flaps = 0,
         gear = True\<rparr> = 75"
  using symmetric_differential_thrust
    [where config = "\<lparr>thrustMult = 2.5, liftMult = 0.8, dragMult = 0.6, turnSpeedMult = 1.8,
         maxSpeedMult = 2.5, engineCount = 2\<rparr>"
       and controls = "\<lparr>pitch = 0, roll = 0, yaw = 0, throttles = [], brake = False,
         flaps = 0, gear = True\<rparr>"
       and T = 75 and rest = "[0, 0]"]
  by simp

section \<open>Vector and quaternion facts\<close>

lemma multiplyScalar_zero [simp]: "multiplyScalar v 0 = Vec3 0 0 0"
  by (cases v) simp

lemma multiplyScalar_zero_left [simp]: "multiplyScalar (Vec3 0 0 0) s = Vec3 0 0 0"
  by simp

lemma add3_zero [simp]: "add3 v (Vec3 0 0 0) = v"
  by (cases v) simp

lemma normalize_zero [simp]: "normalize3 (Vec3 0 0 0) = Vec3 0 0 0"
  by (simp add: normalize3_def)

lemma lerp3_zero [simp]: "lerp3 v t 0 = v"
  by (cases v; cases t) simp

lemma setFromAxisAngle_zero [simp]: "setFromAxisAngle axis 0 = Quat 0 0 0 1"
  by (cases axis) simp

lemma multiply_identity [simp]: "multiply q (Quat 0 0 0 1) = q"
  by (cases q) simp

lemma length3_zero_iff: "length3 v = 0 \<longleftrightarrow> v = Vec3 0 0 0"
proof (cases v)
  case (Vec3 a b c)
  have "a * a + b * b + c * c = 0 \<longleftrightarrow> a = 0 \<and> b = 0 \<and> c = 0"
    by (metis add_nonneg_eq_0_iff add_nonneg_nonneg mult_eq_0_iff zero_le_square)
  then show ?thesis by (simp add: Vec3)
qed

lemma length3_nonneg: "0 \<le> length3 v"
  by (cases v) simp

lemma length3_multiplyScalar: "length3 (multiplyScalar v s) = \<bar>s\<bar> * length3 v"
proof (cases v)
  case (Vec3 a b c)
  have "a * s * (a * s) + b * s * (b * s) + c * s * (c * s) = (s * s) * (a * a + b * b + c * c)"
    by (simp add: algebra_simps)
  then show ?thesis by (simp add: Vec3 real_sqrt_mult)
qed

lemma dot3_self: "dot3 v v = length3 v * length3 v"
  by (cases v) simp

section \<open>What each phase leaves alone\<close>

lemma after_brake_eq:
  "after_brake config controls r0 =
     (if brake controls \<and> vy (position r0) < 1
      then (0, r0\<lparr>speed := length3 (velocity r0) * 0.95\<rparr>)
      else (thrustVal0 config controls, r0\<lparr>speed := length3 (velocity r0)\<rparr>))"
  by (simp add: after_brake_def brake_branch_def)

lemma after_forces_fields:
  "quaternion (after_forces config controls delta r0) = quaternion r0"
  "position (after_forces config controls delta r0) = position r0"
  "speed (after_forces config controls delta r0) = speed (snd (after_brake config controls r0))"
  by (simp_all add: after_forces_def after_brake_eq integrate_velocity_def)

lemma ground_clamp_fields:
  "quaternion (ground_clamp r) = quaternion r"
  "speed (ground_clamp r) = speed r"
  by (simp_all add: ground_clamp_def Let_def)

lemma rotation_control_fields:
  "velocity (rotation_control config controls delta g f u rt r) = velocity r"
  "position (rotation_control config controls delta g f u rt r) = position r"
  "speed (rotation_control config controls delta g f u rt r) = speed r"
  by (simp_all add: rotation_control_def Let_def)

lemma stability_fields:
  "quaternion (stability delta g f r) = quaternion r"
  "position (stability delta g f r) = position r"
  "speed (stability delta g f r) = speed r"
  by (simp_all add: stability_def)

lemma integrate_position_fields:
  "quaternion (integrate_position delta r) = quaternion r"
  "velocity (integrate_position delta r) = velocity r"
  "speed (integrate_position delta r) = speed r"
  by (simp_all add: integrate_position_def)

section \<open>Rest on the ground\<close>

lemma neutral_sums:
  assumes "neutral controls"
  shows "thrustVal0 config controls = 0" and "totalYawInput config controls = 0"
  using assms
  by (simp_all add: neutral_def thrustVal0_def avgThrottle_def totalThrustPercent_def
      totalYawInput_def yawMoment_def throttle_loop_zero)

lemma rest_after_forces:
  assumes "velocity r = Vec3 0 0 0" and "neutral controls"
  shows "after_forces config controls delta r
           = r\<lparr>speed := 0, velocity := Vec3 0 (- GRAVITY * delta * 60) 0\<rparr>"
  using assms
  by (simp add: after_forces_def after_brake_eq neutral_sums integrate_velocity_def
      liftVector_def effectiveLift_def liftFactor_def dragVector_def gravityVector_def)

lemma rest_step:
  assumes v: "velocity r = Vec3 0 0 0" and y: "vy (position r) = 0.6"
    and n: "neutral controls" and d: "0 < delta"
  shows "physics_calculation config controls delta r = r\<lparr>speed := 0\<rparr>"
proof -
  have g: "isOnGround r" by (simp add: isOnGround_def y)
  have neg: "- GRAVITY * delta * 60 < 0" using d by (simp add: GRAVITY_def)
  have p: "Vec3 (vx (position r)) 0.6 (vz (position r)) = position r"
    using y by (cases "position r") simp
  have c: "ground_clamp (after_forces config controls delta r) = r\<lparr>speed := 0\<rparr>"
    using neg v p by (simp add: rest_after_forces [OF v n] ground_clamp_def Let_def)
  have a: "controlAuthority config (r\<lparr>speed := 0\<rparr>) = 0"
    by (simp add: controlAuthority_def)
  have rot: "rotation_control config controls delta True (frame_forward r) (frame_up r)
               (frame_right r) (r\<lparr>speed := 0\<rparr>) = r\<lparr>speed := 0\<rparr>"
    using n by (simp add: rotation_control_def Let_def pitchAmt_def rollAmt_def yawAmt_def a
        neutral_sums)
  show ?thesis
    using g v by (simp add: physics_calculation_def Let_def c rot stability_def
        integrate_position_def)
qed

text \<open>
  C5. At rest on the ground (velocity 0, \<open>position.y = 0.6\<close>; any orientation, the
  identity in particular), with pitch, roll and yaw 0 and every throttle 0 in every frame
  and every elapsed time positive, the velocity is 0 and \<open>position.y\<close> is 0.6 after any
  number of frames; position and orientation do not move at all. Brake, flaps and gear
  may be in any position.
\<close>

theorem zero_input_equilibrium:
  assumes "velocity r = Vec3 0 0 0" and "vy (position r) = 0.6"
    and "maxSpeedMult config \<noteq> 0"
    and "\<forall>tick \<in> set ticks. neutral (fst tick) \<and> 0 < snd tick"
  shows "velocity (run_frames config ticks r) = Vec3 0 0 0
         \<and> vy (position (run_frames config ticks r)) = 0.6
         \<and> position (run_frames config ticks r) = position r
         \<and> quaternion (run_frames config ticks r) = quaternion r"
  using assms
proof (induction ticks arbitrary: r)
  case Nil
  then show ?case by simp
next
  case (Cons tick ticks)
  obtain controls delta where tick: "tick = (controls, delta)" by (cases tick)
  from Cons.prems(4) tick have n: "neutral controls" and d: "0 < delta" by simp_all
  have step: "physics_calculation config controls delta r = r\<lparr>speed := 0\<rparr>"
    using Cons.prems(1,2) n d by (rule rest_step)
  have "velocity (run_frames config ticks (r\<lparr>speed := 0\<rparr>)) = Vec3 0 0 0
         \<and> vy (position (run_frames config ticks (r\<lparr>speed := 0\<rparr>))) = 0.6
         \<and> position (run_frames config ticks (r\<lparr>speed := 0\<rparr>)) = position (r\<lparr>speed := 0\<rparr>)
         \<and> quaternion (run_frames config ticks (r\<lparr>speed := 0\<rparr>)) = quaternion (r\<lparr>speed := 0\<rparr>)"
    using Cons.prems by (intro Cons.IH) simp_all
  then show ?case using Cons.prems(2) by (simp add: tick step)
qed

theorem zero_input_equilibrium_witness:
  "velocity initial_refs = Vec3 0 0 0 \<and> vy (position initial_refs) = 0.6
   \<and> maxSpeedMult \<lparr>thrustMult = 1, liftMult = 1, dragMult = 1, turnSpeedMult = 1,
        maxSpeedMult = 1, engineCount = 1\<rparr> \<noteq> 0
   \<and> neutral \<lparr>pitch = 0, roll = 0, yaw = 0, throttles = [0], brake = False, flaps = 0,
        gear = True\<rparr>
   \<and> (0 :: real) < 1 / 60
   \<and> neutral \<lparr>pitch = 0, roll = 0, yaw = 0, throttles = [0, 0], brake = True, flaps = 2,
        gear = False\<rparr>
   \<and> (0 :: real) < 1 / 10
   \<and> velocity (run_frames
        \<lparr>thrustMult = 1, liftMult = 1, dragMult = 1, turnSpeedMult = 1, maxSpeedMult = 1,
         engineCount = 1\<rparr>
        [(\<lparr>pitch = 0, roll = 0, yaw = 0, throttles = [0], brake = False, flaps = 0,
           gear = True\<rparr>, 1 / 60 :: real),
         (\<lparr>pitch = 0, roll = 0, yaw = 0, throttles = [0, 0], brake = True, flaps = 2,
           gear = False\<rparr>, 1 / 10 :: real)]
        initial_refs) = Vec3 0 0 0
   \<and> vy (position (run_frames
        \<lparr>thrustMult = 1, liftMult = 1, dragMult = 1, turnSpeedMult = 1, maxSpeedMult = 1,
         engineCount = 1\<rparr>
        [(\<lparr>pitch = 0, roll = 0, yaw = 0, throttles = [0], brake = False, flaps = 0,
           gear = True\<rparr>, 1 / 60 :: real),
         (\<lparr>pitch = 0, roll = 0, yaw = 0, throttles = [0, 0], brake = True, flaps = 2,
           gear = False\<rparr>, 1 / 10 :: real)]
        initial_refs)) = 0.6"
proof -
  let ?cfg = "\<lparr>thrustMult = 1, liftMult = 1, dragMult = 1, turnSpeedMult = 1,
        maxSpeedMult = 1, engineCount = 1\<rparr>"
  let ?ticks = "[(\<lparr>pitch = 0, roll = 0, yaw = 0, throttles = [0], brake = False,
                          flaps = 0, gear = True\<rparr>, 1 / 60 :: real),
                 (\<lparr>pitch = 0, roll = 0, yaw = 0, throttles = [0, 0], brake = True,
                          flaps = 2, gear = False\<rparr>, 1 / 10 :: real)]"
  have h1: "velocity initial_refs = Vec3 0 0 0" by (simp add: initial_refs_def)
  have h2: "vy (position initial_refs) = 0.6" by (simp add: initial_refs_def)
  have h3: "maxSpeedMult ?cfg \<noteq> 0" by simp
  have h4: "\<forall>tick \<in> set ?ticks. neutral (fst tick) \<and> 0 < snd tick"
    by (simp add: neutral_def)
  have h5: "neutral \<lparr>pitch = 0, roll = 0, yaw = 0, throttles = [0], brake = False, flaps = 0,
        gear = True\<rparr>
      \<and> neutral \<lparr>pitch = 0, roll = 0, yaw = 0, throttles = [0, 0], brake = True, flaps = 2,
        gear = False\<rparr>"
    by (simp add: neutral_def)
  have h6: "(0 :: real) < 1 / 60 \<and> (0 :: real) < 1 / 10" by simp
  show ?thesis
    using h1 h2 h3 h5 h6 zero_input_equilibrium [OF h1 h2 h3 h4] by blast
qed

section \<open>Drag\<close>

lemma length3_normalize: "v \<noteq> Vec3 0 0 0 \<Longrightarrow> length3 (normalize3 v) = 1"
  using length3_nonneg [of v]
  by (simp add: normalize3_def length3_multiplyScalar length3_zero_iff)

lemma multiplyScalar_twice: "multiplyScalar (multiplyScalar v s) t = multiplyScalar v (s * t)"
  by (cases v) simp

lemma dot3_multiplyScalar: "dot3 u (multiplyScalar v s) = s * dot3 u v"
  by (cases u; cases v) (simp add: algebra_simps)

lemma antiparallel:
  assumes v: "v \<noteq> Vec3 0 0 0" and D: "0 < D"
  shows "dot3 (normalize3 v) (normalize3 (multiplyScalar (normalize3 v) (- D))) = - 1"
proof -
  have u: "length3 (normalize3 v) = 1" using v by (rule length3_normalize)
  have l: "length3 (multiplyScalar (normalize3 v) (- D)) = D"
    using D by (simp add: length3_multiplyScalar u)
  have "normalize3 (multiplyScalar (normalize3 v) (- D)) = multiplyScalar (normalize3 v) (- 1)"
    using D by (simp add: normalize3_def [of "multiplyScalar (normalize3 v) (- D)"] l
        multiplyScalar_twice)
  then show ?thesis by (simp add: dot3_multiplyScalar dot3_self u)
qed

lemma after_brake_velocity: "velocity (snd (after_brake config controls r0)) = velocity r0"
  by (simp add: after_brake_eq)

lemma after_brake_speed:
  "speed (snd (after_brake config controls r0)) =
     (if brake controls \<and> vy (position r0) < 1 then length3 (velocity r0) * 0.95
      else length3 (velocity r0))"
  by (simp add: after_brake_eq)

lemma dragVal_pos:
  assumes "0 < speed r" and "0 < dragMult config" and "0 \<le> flaps controls"
  shows "0 < dragVal config controls r"
proof -
  have "0 < (speed r * speed r) * DRAG_COEFFICIENT * dragMult config"
    using assms by (simp add: DRAG_COEFFICIENT_def)
  moreover have "0 \<le> (if gear controls then 0.001 else 0 :: real)" by simp
  moreover have "0 \<le> flaps controls * 0.002" using assms by simp
  ultimately show ?thesis unfolding dragVal_def by linarith
qed

text \<open>
  C6. For every frame whose velocity is not the zero vector, on a configuration with
  \<open>dragMult > 0\<close> and with \<open>flaps \<ge> 0\<close>, the drag vector is exactly antiparallel to the
  velocity: the dot product of the normalized velocity and the normalized drag vector is
  \<open>- 1\<close>, and the drag vector is the velocity times a negative number. When the speed of
  the frame is 0 the drag vector is the zero vector: \<open>normalize\<close> divides a vector of
  length zero by 1.
\<close>

theorem drag_direction:
  "(velocity r0 \<noteq> Vec3 0 0 0 \<and> 0 < dragMult config \<and> 0 \<le> flaps controls \<longrightarrow>
      dot3 (normalize3 (velocity r0)) (normalize3 (frame_dragVector config controls r0)) = - 1
      \<and> (\<exists>k > 0. frame_dragVector config controls r0 = multiplyScalar (velocity r0) (- k)))
   \<and> (speed (snd (after_brake config controls r0)) = 0 \<longrightarrow>
        frame_dragVector config controls r0 = Vec3 0 0 0)"
proof (intro conjI impI)
  assume h: "velocity r0 \<noteq> Vec3 0 0 0 \<and> 0 < dragMult config \<and> 0 \<le> flaps controls"
  let ?r2 = "snd (after_brake config controls r0)"
  have L: "0 < length3 (velocity r0)"
    using h length3_nonneg [of "velocity r0"] length3_zero_iff [of "velocity r0"] by simp
  then have s: "0 < speed ?r2" by (simp add: after_brake_speed)
  have D: "0 < dragVal config controls ?r2" using s h by (simp add: dragVal_pos)
  show "dot3 (normalize3 (velocity r0)) (normalize3 (frame_dragVector config controls r0)) = - 1"
    using antiparallel [of "velocity r0", OF _ D] h
    by (simp add: frame_dragVector_def dragVector_def after_brake_velocity)
  have "frame_dragVector config controls r0 =
          multiplyScalar (velocity r0) (- (dragVal config controls ?r2 / length3 (velocity r0)))"
    using L by (simp add: frame_dragVector_def dragVector_def after_brake_velocity normalize3_def
        multiplyScalar_twice)
  moreover have "0 < dragVal config controls ?r2 / length3 (velocity r0)"
    using L D by simp
  ultimately show "\<exists>k > 0. frame_dragVector config controls r0 = multiplyScalar (velocity r0) (- k)"
    by blast
next
  assume "speed (snd (after_brake config controls r0)) = 0"
  then have "length3 (velocity r0) = 0"
    by (simp add: after_brake_speed split: if_splits)
  then have "velocity r0 = Vec3 0 0 0" by (simp add: length3_zero_iff)
  then show "frame_dragVector config controls r0 = Vec3 0 0 0"
    by (simp add: frame_dragVector_def dragVector_def after_brake_velocity)
qed


theorem drag_direction_witness:
  "velocity (initial_refs\<lparr>velocity := Vec3 0 0 (- 1)\<rparr>) \<noteq> Vec3 0 0 0
   \<and> 0 < dragMult \<lparr>thrustMult = 1, liftMult = 1, dragMult = 1, turnSpeedMult = 1,
         maxSpeedMult = 1, engineCount = 1\<rparr>
   \<and> 0 \<le> flaps \<lparr>pitch = 0, roll = 0, yaw = 0, throttles = [100], brake = False, flaps = 1,
         gear = True\<rparr>
   \<and> dot3 (normalize3 (velocity (initial_refs\<lparr>velocity := Vec3 0 0 (- 1)\<rparr>)))
        (normalize3 (frame_dragVector
           \<lparr>thrustMult = 1, liftMult = 1, dragMult = 1, turnSpeedMult = 1, maxSpeedMult = 1,
            engineCount = 1\<rparr>
           \<lparr>pitch = 0, roll = 0, yaw = 0, throttles = [100], brake = False, flaps = 1,
            gear = True\<rparr>
           (initial_refs\<lparr>velocity := Vec3 0 0 (- 1)\<rparr>))) = - 1
   \<and> speed (snd (after_brake
           \<lparr>thrustMult = 1, liftMult = 1, dragMult = 1, turnSpeedMult = 1, maxSpeedMult = 1,
            engineCount = 1\<rparr>
           \<lparr>pitch = 0, roll = 0, yaw = 0, throttles = [100], brake = False, flaps = 1,
            gear = True\<rparr> initial_refs)) = 0
   \<and> frame_dragVector
           \<lparr>thrustMult = 1, liftMult = 1, dragMult = 1, turnSpeedMult = 1, maxSpeedMult = 1,
            engineCount = 1\<rparr>
           \<lparr>pitch = 0, roll = 0, yaw = 0, throttles = [100], brake = False, flaps = 1,
            gear = True\<rparr> initial_refs = Vec3 0 0 0"
proof -
  let ?cfg = "\<lparr>thrustMult = 1, liftMult = 1, dragMult = 1, turnSpeedMult = 1,
         maxSpeedMult = 1, engineCount = 1\<rparr> :: AircraftConfig"
  let ?ctl = "\<lparr>pitch = 0, roll = 0, yaw = 0, throttles = [100], brake = False, flaps = 1,
         gear = True\<rparr> :: ControlState"
  let ?rA = "initial_refs\<lparr>velocity := Vec3 0 0 (- 1)\<rparr>"
  have h1: "velocity ?rA \<noteq> Vec3 0 0 0 \<and> 0 < dragMult ?cfg \<and> 0 \<le> flaps ?ctl"
    by simp
  have h2: "speed (snd (after_brake ?cfg ?ctl initial_refs)) = 0"
    by (simp add: after_brake_def brake_branch_def initial_refs_def)
  show ?thesis
    using h1 h2 drag_direction [of ?rA ?cfg ?ctl] drag_direction [of initial_refs ?cfg ?ctl]
    by blast
qed

section \<open>Ground clamp\<close>

lemma physics_calculation_on_ground:
  assumes "isOnGround r0"
  shows "velocity (physics_calculation config controls delta r0)
           = velocity (ground_clamp (after_forces config controls delta r0))"
    and "position (physics_calculation config controls delta r0)
           = add3 (position (ground_clamp (after_forces config controls delta r0)))
               (multiplyScalar (velocity (ground_clamp (after_forces config controls delta r0)))
                  (delta * 60))"
  using assms
  by (simp_all add: physics_calculation_def Let_def integrate_position_def stability_def
      rotation_control_fields)

text \<open>
  C9. In a frame that starts on the ground (\<open>position.y \<le> 0.6\<close>), with \<open>v\<close> the velocity
  after the force integration: a negative vertical component of \<open>v\<close> is zeroed, and the
  other two components are damped by 0.995; a vertical component that is not negative
  passes through, the whole of \<open>v\<close> being damped by 0.995. The position is \<open>y = 0.6\<close> plus
  the new velocity times \<open>delta * 60\<close>, so a positive vertical component of \<open>v\<close> lifts the
  vehicle above 0.6 in the same frame (for positive \<open>delta\<close>).
\<close>

theorem ground_clamp_keeps_upward_velocity:
  assumes "isOnGround r0"
  shows "(vy (velocity (after_forces config controls delta r0)) < 0 \<longrightarrow>
            velocity (physics_calculation config controls delta r0)
              = Vec3 (vx (velocity (after_forces config controls delta r0)) * 0.995) 0
                     (vz (velocity (after_forces config controls delta r0)) * 0.995))
       \<and> (\<not> vy (velocity (after_forces config controls delta r0)) < 0 \<longrightarrow>
            velocity (physics_calculation config controls delta r0)
              = multiplyScalar (velocity (after_forces config controls delta r0)) 0.995)
       \<and> position (physics_calculation config controls delta r0)
            = add3 (Vec3 (vx (position r0)) 0.6 (vz (position r0)))
                (multiplyScalar (velocity (physics_calculation config controls delta r0))
                   (delta * 60))
       \<and> (0 < vy (velocity (after_forces config controls delta r0)) \<and> 0 < delta \<longrightarrow>
            0.6 < vy (position (physics_calculation config controls delta r0)))"
proof -
  let ?vi = "velocity (after_forces config controls delta r0)"
  let ?r = "physics_calculation config controls delta r0"
  have v: "velocity ?r = multiplyScalar
             (if vy ?vi < 0 then Vec3 (vx ?vi) 0 (vz ?vi) else ?vi) 0.995"
    by (simp add: physics_calculation_on_ground [OF assms] ground_clamp_def Let_def)
  have p: "position ?r = add3 (Vec3 (vx (position r0)) 0.6 (vz (position r0)))
                (multiplyScalar (velocity ?r) (delta * 60))"
    by (simp add: physics_calculation_on_ground [OF assms] ground_clamp_def Let_def
        after_forces_fields)
  have up: "0.6 < vy (position ?r)" if "0 < vy ?vi" and "0 < delta"
  proof -
    have "vy (velocity ?r) = vy ?vi * 0.995"
      using that v by (cases ?vi) simp
    then have "0 < vy (velocity ?r) * (delta * 60)" using that by simp
    moreover have "vy (position ?r) = 0.6 + vy (velocity ?r) * (delta * 60)"
      by (subst p) (cases "velocity ?r", simp)
    ultimately show ?thesis by linarith
  qed
  show ?thesis using v p up by simp
qed


theorem ground_clamp_keeps_upward_velocity_witness:
  "isOnGround (initial_refs\<lparr>velocity := Vec3 0 0 (- 4)\<rparr>)
   \<and> 0 < vy (velocity (after_forces
          \<lparr>thrustMult = 1, liftMult = 1, dragMult = 1, turnSpeedMult = 1, maxSpeedMult = 1,
           engineCount = 1\<rparr>
          \<lparr>pitch = 0, roll = 0, yaw = 0, throttles = [100], brake = False, flaps = 0,
           gear = True\<rparr>
          (1 / 60) (initial_refs\<lparr>velocity := Vec3 0 0 (- 4)\<rparr>)))
   \<and> (0 :: real) < 1 / 60
   \<and> 0.6 < vy (position (physics_calculation
          \<lparr>thrustMult = 1, liftMult = 1, dragMult = 1, turnSpeedMult = 1, maxSpeedMult = 1,
           engineCount = 1\<rparr>
          \<lparr>pitch = 0, roll = 0, yaw = 0, throttles = [100], brake = False, flaps = 0,
           gear = True\<rparr>
          (1 / 60) (initial_refs\<lparr>velocity := Vec3 0 0 (- 4)\<rparr>)))"
proof -
  let ?cfg = "\<lparr>thrustMult = 1, liftMult = 1, dragMult = 1, turnSpeedMult = 1,
         maxSpeedMult = 1, engineCount = 1\<rparr> :: AircraftConfig"
  let ?ctl = "\<lparr>pitch = 0, roll = 0, yaw = 0, throttles = [100], brake = False, flaps = 0,
         gear = True\<rparr> :: ControlState"
  let ?r0 = "initial_refs\<lparr>velocity := Vec3 0 0 (- 4)\<rparr>"
  have g: "isOnGround ?r0" by (simp add: isOnGround_def initial_refs_def)
  have "vy (velocity (after_forces ?cfg ?ctl (1 / 60) ?r0)) = 4 / 75"
    by (simp add: after_forces_def after_brake_def brake_branch_def initial_refs_def
        integrate_velocity_def thrustVal0_def avgThrottle_def totalThrustPercent_def
        frame_forward_def frame_up_def gravityVector_def liftVector_def effectiveLift_def
        liftFactor_def maxSpeedForCalc_def dragVector_def dragVal_def normalize3_def
        MAX_THRUST_def GRAVITY_def LIFT_COEFFICIENT_def DRAG_COEFFICIENT_def MAX_SPEED_def)
  then have u: "0 < vy (velocity (after_forces ?cfg ?ctl (1 / 60) ?r0))" by simp
  have d: "(0 :: real) < 1 / 60" by simp
  show ?thesis
    using g u d ground_clamp_keeps_upward_velocity [OF g, of ?cfg ?ctl "1 / 60"] by blast
qed

section \<open>Brake\<close>

text \<open>
  C10. With the brake active and \<open>position.y < 1.0\<close>, the brake branch sets \<open>thrustVal\<close> to
  0 and multiplies the cell \<open>speed\<close> by 0.95, and writes nothing else: the velocity vector,
  the position and the quaternion are as before. The frame then integrates the unscaled
  velocity vector with gravity, lift and drag (no thrust), where lift and drag are computed
  from the decayed speed \<open>0.95 * |velocity|\<close>; the same decayed speed is what the rotation
  control reads and what the telemetry reports.
\<close>

theorem brake_branch_frame_effect:
  assumes "brake controls" and "vy (position r0) < 1.0"
  shows "brake_branch controls (thrustVal, r0) = (0, r0\<lparr>speed := speed r0 * 0.95\<rparr>)
       \<and> after_brake config controls r0 = (0, r0\<lparr>speed := length3 (velocity r0) * 0.95\<rparr>)
       \<and> velocity (after_forces config controls delta r0)
            = add3 (add3 (add3 (velocity r0) (gravityVector delta))
                      (liftVector config controls (frame_up r0) delta
                         (r0\<lparr>speed := length3 (velocity r0) * 0.95\<rparr>)))
                (dragVector config controls (r0\<lparr>speed := length3 (velocity r0) * 0.95\<rparr>))
       \<and> speed (physics_calculation config controls delta r0) = length3 (velocity r0) * 0.95
       \<and> fd_velocity (snd (useFrame config controls delta r0))
            = length3 (velocity r0) * 0.95"
proof -
  have b: "brake_branch controls (thrustVal, r0) = (0, r0\<lparr>speed := speed r0 * 0.95\<rparr>)"
    using assms by (simp add: brake_branch_def)
  have a: "after_brake config controls r0 = (0, r0\<lparr>speed := length3 (velocity r0) * 0.95\<rparr>)"
    using assms by (simp add: after_brake_eq)
  have f: "velocity (after_forces config controls delta r0)
            = add3 (add3 (add3 (velocity r0) (gravityVector delta))
                      (liftVector config controls (frame_up r0) delta
                         (r0\<lparr>speed := length3 (velocity r0) * 0.95\<rparr>)))
                (dragVector config controls (r0\<lparr>speed := length3 (velocity r0) * 0.95\<rparr>))"
    by (simp add: after_forces_def a integrate_velocity_def)
  have s: "speed (physics_calculation config controls delta r0) = length3 (velocity r0) * 0.95"
    by (simp add: physics_calculation_def Let_def integrate_position_fields stability_fields
        rotation_control_fields ground_clamp_fields after_forces_fields a)
  have t: "fd_velocity (snd (useFrame config controls delta r0))
            = length3 (velocity r0) * 0.95"
    by (simp add: useFrame_def Let_def onUpdate_data_def s)
  show ?thesis using b a f s t by simp
qed

theorem brake_branch_frame_effect_witness:
  "brake \<lparr>pitch = 0, roll = 0, yaw = 0, throttles = [100], brake = True, flaps = 0,
           gear = True\<rparr>
   \<and> vy (position (initial_refs\<lparr>velocity := Vec3 0 0 (- 2)\<rparr>)) < 1.0
   \<and> after_brake
        \<lparr>thrustMult = 1, liftMult = 1, dragMult = 1, turnSpeedMult = 1, maxSpeedMult = 1,
         engineCount = 1\<rparr>
        \<lparr>pitch = 0, roll = 0, yaw = 0, throttles = [100], brake = True, flaps = 0,
         gear = True\<rparr>
        (initial_refs\<lparr>velocity := Vec3 0 0 (- 2)\<rparr>)
      = (0, initial_refs\<lparr>velocity := Vec3 0 0 (- 2), speed := 1.9\<rparr>)"
proof -
  let ?cfg = "\<lparr>thrustMult = 1, liftMult = 1, dragMult = 1, turnSpeedMult = 1,
         maxSpeedMult = 1, engineCount = 1\<rparr> :: AircraftConfig"
  let ?ctl = "\<lparr>pitch = 0, roll = 0, yaw = 0, throttles = [100], brake = True, flaps = 0,
         gear = True\<rparr> :: ControlState"
  let ?r0 = "initial_refs\<lparr>velocity := Vec3 0 0 (- 2)\<rparr>"
  have h1: "brake ?ctl" by simp
  have h2: "vy (position ?r0) < 1.0" by (simp add: initial_refs_def)
  show ?thesis
    using h1 h2 brake_branch_frame_effect [OF h1 h2, of 0 ?cfg 0]
    by simp
qed

section \<open>Velocity integration\<close>

lemma after_forces_velocity:
  "velocity (after_forces config controls delta r0) =
     add3 (add3 (add3 (add3 (velocity r0)
       (multiplyScalar (multiplyScalar (frame_forward r0) (fst (after_brake config controls r0)))
          delta))
       (gravityVector delta))
       (liftVector config controls (frame_up r0) delta (snd (after_brake config controls r0))))
       (frame_dragVector config controls r0)"
  by (simp add: after_forces_def integrate_velocity_def frame_dragVector_def after_brake_velocity
      case_prod_beta)

lemma gravityVector_scaled: "gravityVector delta = multiplyScalar (Vec3 0 (- GRAVITY * 60) 0) delta"
  by (simp add: gravityVector_def)

lemma liftVector_scaled:
  "liftVector config controls up delta r
     = multiplyScalar (multiplyScalar up (effectiveLift config controls r)) delta"
  by (simp add: liftVector_def multiplyScalar_twice)

lemma after_forces_zero_dt:
  "after_forces config controls 0 r0 =
     (snd (after_brake config controls r0))
       \<lparr>velocity := add3 (velocity r0) (frame_dragVector config controls r0)\<rparr>"
  by (simp add: after_forces_def integrate_velocity_def frame_dragVector_def after_brake_velocity
      case_prod_beta gravityVector_def liftVector_def)

text \<open>
  C2, as the code has it. The velocity after the integration is the old velocity plus
  \<open>delta\<close> times the thrust vector (scaled where it is added), plus \<open>delta\<close> times the
  constant gravity vector \<open>(0, - GRAVITY * 60, 0)\<close> and \<open>delta\<close> times the lift vector
  \<open>up * effectiveLift\<close> (both scaled where they are computed), plus the drag vector as it
  is: the drag vector does not depend on \<open>delta\<close> and is not multiplied by it, so a frame
  with \<open>delta = 0\<close> still changes the velocity by the whole drag vector.
\<close>

theorem velocity_integration_scaling:
  "velocity (after_forces config controls delta r0) =
     add3 (add3 (add3 (add3 (velocity r0)
       (multiplyScalar (multiplyScalar (frame_forward r0) (fst (after_brake config controls r0)))
          delta))
       (multiplyScalar (Vec3 0 (- GRAVITY * 60) 0) delta))
       (multiplyScalar
          (multiplyScalar (frame_up r0)
             (effectiveLift config controls (snd (after_brake config controls r0))))
          delta))
       (frame_dragVector config controls r0)
   \<and> velocity (after_forces config controls 0 r0)
       = add3 (velocity r0) (frame_dragVector config controls r0)"
proof
  show "velocity (after_forces config controls delta r0) =
     add3 (add3 (add3 (add3 (velocity r0)
       (multiplyScalar (multiplyScalar (frame_forward r0) (fst (after_brake config controls r0)))
          delta))
       (multiplyScalar (Vec3 0 (- GRAVITY * 60) 0) delta))
       (multiplyScalar
          (multiplyScalar (frame_up r0)
             (effectiveLift config controls (snd (after_brake config controls r0))))
          delta))
       (frame_dragVector config controls r0)"
    by (simp only: after_forces_velocity gravityVector_scaled liftVector_scaled)
  show "velocity (after_forces config controls 0 r0)
       = add3 (velocity r0) (frame_dragVector config controls r0)"
    by (simp add: after_forces_zero_dt)
qed

text \<open>
  C2 as stated fails: with the drag vector scaled by \<open>delta\<close> where it is added
  (\<open>after_forces_spec\<close>) the velocity differs from the one the code computes, here for the
  trainer at full throttle, flying at speed 1 along its nose, with \<open>delta = 1 / 60\<close>.
\<close>

theorem drag_not_scaled_counterexample:
  "velocity (after_forces
      \<lparr>thrustMult = 1, liftMult = 1, dragMult = 1, turnSpeedMult = 1, maxSpeedMult = 1,
       engineCount = 1\<rparr>
      \<lparr>pitch = 0, roll = 0, yaw = 0, throttles = [100], brake = False, flaps = 0,
       gear = True\<rparr>
      (1 / 60) (initial_refs\<lparr>velocity := Vec3 0 0 (- 1)\<rparr>))
   \<noteq> velocity (after_forces_spec
      \<lparr>thrustMult = 1, liftMult = 1, dragMult = 1, turnSpeedMult = 1, maxSpeedMult = 1,
       engineCount = 1\<rparr>
      \<lparr>pitch = 0, roll = 0, yaw = 0, throttles = [100], brake = False, flaps = 0,
       gear = True\<rparr>
      (1 / 60) (initial_refs\<lparr>velocity := Vec3 0 0 (- 1)\<rparr>))"
  by (simp add: after_forces_def after_forces_spec_def after_brake_def brake_branch_def
      initial_refs_def integrate_velocity_def integrate_velocity_spec_def thrustVal0_def
      avgThrottle_def totalThrustPercent_def frame_forward_def frame_up_def gravityVector_def
      liftVector_def effectiveLift_def liftFactor_def maxSpeedForCalc_def dragVector_def
      dragVal_def normalize3_def MAX_THRUST_def GRAVITY_def LIFT_COEFFICIENT_def
      DRAG_COEFFICIENT_def MAX_SPEED_def)


section \<open>A frame with no elapsed time\<close>

lemma rotation_control_zero_dt:
  "rotation_control config controls 0 g f u rt r = r"
  by (simp add: rotation_control_def Let_def pitchAmt_def rollAmt_def yawAmt_def)

lemma stability_zero_dt: "stability 0 g f r = r"
  by (simp add: stability_def)

lemma physics_calculation_zero_dt:
  "physics_calculation config controls 0 r0 =
     (if isOnGround r0 then (ground_clamp (after_forces config controls 0 r0))
      else after_forces config controls 0 r0)"
proof -
  have "integrate_position 0 r = r" for r
    by (simp add: integrate_position_def)
  then show ?thesis
    by (simp add: physics_calculation_def Let_def rotation_control_zero_dt stability_zero_dt)
qed

text \<open>
  C1, as the code has it. In a frame with \<open>delta = 0\<close> the orientation is unchanged and
  thrust, gravity and lift add nothing. The position is unchanged when \<open>position.y \<ge> 0.6\<close>;
  below that the ground clamp pins \<open>y\<close> to 0.6 and \<open>x\<close> and \<open>z\<close> stay. A zero velocity
  stays zero. A velocity that is not zero changes: in the air by the drag vector, which is
  not scaled by \<open>delta\<close>; on the ground by the drag vector, then by the clamp of a downward
  component and the damping by 0.995.
\<close>

theorem zero_dt_frame:
  assumes "maxSpeedMult config \<noteq> 0"
  shows "quaternion (physics_calculation config controls 0 r0) = quaternion r0
       \<and> vx (position (physics_calculation config controls 0 r0)) = vx (position r0)
       \<and> vz (position (physics_calculation config controls 0 r0)) = vz (position r0)
       \<and> (0.6 \<le> vy (position r0) \<longrightarrow>
            position (physics_calculation config controls 0 r0) = position r0)
       \<and> (isOnGround r0 \<longrightarrow> vy (position (physics_calculation config controls 0 r0)) = 0.6)
       \<and> (velocity r0 = Vec3 0 0 0 \<longrightarrow>
            velocity (physics_calculation config controls 0 r0) = velocity r0)
       \<and> (\<not> isOnGround r0 \<longrightarrow>
            velocity (physics_calculation config controls 0 r0)
              = add3 (velocity r0) (frame_dragVector config controls r0))
       \<and> (isOnGround r0 \<longrightarrow>
            velocity (physics_calculation config controls 0 r0)
              = velocity (ground_clamp
                  (r0\<lparr>velocity := add3 (velocity r0) (frame_dragVector config controls r0)\<rparr>)))"
proof -
  let ?r = "physics_calculation config controls 0 r0"
  have z: "frame_dragVector config controls r0 = Vec3 0 0 0" if "velocity r0 = Vec3 0 0 0"
    using that by (simp add: frame_dragVector_def dragVector_def after_brake_velocity)
  have q: "quaternion ?r = quaternion r0"
    by (simp add: physics_calculation_zero_dt after_forces_zero_dt ground_clamp_def Let_def
        after_brake_eq)
  have xz: "vx (position ?r) = vx (position r0) \<and> vz (position ?r) = vz (position r0)"
    by (simp add: physics_calculation_zero_dt after_forces_zero_dt ground_clamp_def Let_def
        after_brake_eq)
  have y: "vy (position ?r) = 0.6" if "isOnGround r0"
    using that by (simp add: physics_calculation_zero_dt after_forces_zero_dt ground_clamp_def
        Let_def after_brake_eq)
  have p: "position ?r = position r0" if "0.6 \<le> vy (position r0)"
  proof (cases "isOnGround r0")
    case True
    with that have "vy (position r0) = 0.6" by (simp add: isOnGround_def)
    then have "Vec3 (vx (position r0)) 0.6 (vz (position r0)) = position r0"
      by (cases "position r0") simp
    with True show ?thesis
      by (simp add: physics_calculation_zero_dt after_forces_zero_dt ground_clamp_def Let_def
          after_brake_eq)
  next
    case False
    then show ?thesis
      by (simp add: physics_calculation_zero_dt after_forces_zero_dt after_brake_eq)
  qed
  have va: "velocity ?r = add3 (velocity r0) (frame_dragVector config controls r0)"
    if "\<not> isOnGround r0"
    using that by (simp add: physics_calculation_zero_dt after_forces_zero_dt)
  have vg: "velocity ?r = velocity (ground_clamp
              (r0\<lparr>velocity := add3 (velocity r0) (frame_dragVector config controls r0)\<rparr>))"
    if "isOnGround r0"
    using that by (simp add: physics_calculation_zero_dt after_forces_zero_dt ground_clamp_def
        Let_def)
  have v0: "velocity ?r = velocity r0" if "velocity r0 = Vec3 0 0 0"
  proof (cases "isOnGround r0")
    case True
    then show ?thesis using that by (simp add: vg z ground_clamp_def Let_def)
  next
    case False
    then show ?thesis using that by (simp add: va z)
  qed
  show ?thesis using q xz y p va vg v0 by blast
qed

theorem zero_dt_frame_witness:
  "maxSpeedMult \<lparr>thrustMult = 1, liftMult = 1, dragMult = 1, turnSpeedMult = 1,
      maxSpeedMult = 1, engineCount = 1\<rparr> \<noteq> 0
   \<and> 0.6 \<le> vy (position initial_refs) \<and> isOnGround initial_refs
   \<and> velocity initial_refs = Vec3 0 0 0
   \<and> \<not> isOnGround (initial_refs\<lparr>position := Vec3 0 10 0\<rparr>)
   \<and> position (physics_calculation
        \<lparr>thrustMult = 1, liftMult = 1, dragMult = 1, turnSpeedMult = 1, maxSpeedMult = 1,
         engineCount = 1\<rparr>
        \<lparr>pitch = 1, roll = 1, yaw = 1, throttles = [100], brake = False, flaps = 0,
         gear = True\<rparr> 0 initial_refs) = position initial_refs
   \<and> velocity (physics_calculation
        \<lparr>thrustMult = 1, liftMult = 1, dragMult = 1, turnSpeedMult = 1, maxSpeedMult = 1,
         engineCount = 1\<rparr>
        \<lparr>pitch = 1, roll = 1, yaw = 1, throttles = [100], brake = False, flaps = 0,
         gear = True\<rparr> 0 initial_refs) = velocity initial_refs
   \<and> quaternion (physics_calculation
        \<lparr>thrustMult = 1, liftMult = 1, dragMult = 1, turnSpeedMult = 1, maxSpeedMult = 1,
         engineCount = 1\<rparr>
        \<lparr>pitch = 1, roll = 1, yaw = 1, throttles = [100], brake = False, flaps = 0,
         gear = True\<rparr> 0 initial_refs) = quaternion initial_refs
   \<and> velocity (physics_calculation
        \<lparr>thrustMult = 1, liftMult = 1, dragMult = 1, turnSpeedMult = 1, maxSpeedMult = 1,
         engineCount = 1\<rparr>
        \<lparr>pitch = 1, roll = 1, yaw = 1, throttles = [100], brake = False, flaps = 0,
         gear = True\<rparr> 0 (initial_refs\<lparr>position := Vec3 0 10 0\<rparr>))
      = velocity (initial_refs\<lparr>position := Vec3 0 10 0\<rparr>)"
proof -
  let ?cfg = "\<lparr>thrustMult = 1, liftMult = 1, dragMult = 1, turnSpeedMult = 1,
         maxSpeedMult = 1, engineCount = 1\<rparr> :: AircraftConfig"
  let ?ctl = "\<lparr>pitch = 1, roll = 1, yaw = 1, throttles = [100], brake = False, flaps = 0,
         gear = True\<rparr> :: ControlState"
  let ?rA = "initial_refs\<lparr>position := Vec3 0 10 0\<rparr>"
  have h: "maxSpeedMult ?cfg \<noteq> 0" by simp
  have g: "0.6 \<le> vy (position initial_refs) \<and> isOnGround initial_refs
           \<and> velocity initial_refs = Vec3 0 0 0"
    by (simp add: initial_refs_def isOnGround_def)
  have a: "\<not> isOnGround ?rA \<and> velocity ?rA = Vec3 0 0 0"
    by (simp add: initial_refs_def isOnGround_def)
  show ?thesis
    using h g a zero_dt_frame [OF h, of ?ctl initial_refs] zero_dt_frame [OF h, of ?ctl ?rA]
    by simp
qed

text \<open>
  C1 as stated fails: an airborne trainer flying at speed 1 with neutral controls has
  another velocity after a frame with \<open>delta = 0\<close>.
\<close>

theorem zero_dt_counterexample:
  "velocity (physics_calculation
      \<lparr>thrustMult = 1, liftMult = 1, dragMult = 1, turnSpeedMult = 1, maxSpeedMult = 1,
       engineCount = 1\<rparr>
      \<lparr>pitch = 0, roll = 0, yaw = 0, throttles = [0], brake = False, flaps = 0,
       gear = True\<rparr>
      0 \<lparr>velocity = Vec3 0 0 (- 1), speed = 1, position = Vec3 0 10 0,
         quaternion = Quat 0 0 0 1\<rparr>)
   \<noteq> velocity \<lparr>velocity = Vec3 0 0 (- 1), speed = 1, position = Vec3 0 10 0,
         quaternion = Quat 0 0 0 1\<rparr>"
  by (simp add: physics_calculation_zero_dt after_forces_zero_dt isOnGround_def
      frame_dragVector_def dragVector_def dragVal_def after_brake_def brake_branch_def
      normalize3_def DRAG_COEFFICIENT_def)


section \<open>Telemetry\<close>

lemma physics_calculation_speed:
  "speed (physics_calculation config controls delta r0) =
     (if brake controls \<and> vy (position r0) < 1 then length3 (velocity r0) * 0.95
      else length3 (velocity r0))"
  by (simp add: physics_calculation_def Let_def integrate_position_fields stability_fields
      rotation_control_fields ground_clamp_fields after_forces_fields after_brake_eq)

text \<open>
  C3, as the code has it. The telemetry reads position, altitude and rotation from the
  cells after the frame and echoes the controls; its field \<open>velocity\<close> is the cell
  \<open>speed\<close>, which holds the length of the velocity before the frame's integration,
  multiplied by 0.95 when the brake is active and \<open>position.y\<close> was below 1.0.
\<close>

theorem telemetry_fields:
  "snd (useFrame config controls delta r0) =
     \<lparr>fd_position = (vx (position (fst (useFrame config controls delta r0))),
                     vy (position (fst (useFrame config controls delta r0))),
                     vz (position (fst (useFrame config controls delta r0)))),
      fd_rotation = setFromQuaternion (quaternion (fst (useFrame config controls delta r0))),
      fd_velocity = (if brake controls \<and> vy (position r0) < 1
                     then length3 (velocity r0) * 0.95 else length3 (velocity r0)),
      fd_altitude = vy (position (fst (useFrame config controls delta r0))),
      fd_throttles = throttles controls,
      fd_fuel = 100,
      fd_isGearDown = gear controls,
      fd_flapsValue = flaps controls,
      fd_brake = brake controls,
      fd_pitchInput = pitch controls,
      fd_rollInput = roll controls,
      fd_yawInput = yaw controls\<rparr>"
  by (simp add: useFrame_def Let_def onUpdate_data_def physics_calculation_speed)

lemma touchdown_after_forces:
  assumes "c < 0"
  shows "after_forces
      \<lparr>thrustMult = 1, liftMult = 1, dragMult = 1, turnSpeedMult = 1, maxSpeedMult = 1,
       engineCount = 1\<rparr>
      \<lparr>pitch = 0, roll = 0, yaw = 0, throttles = [0], brake = False, flaps = 0,
       gear = True\<rparr>
      (1 / 60) (initial_refs\<lparr>velocity := Vec3 0 c 0\<rparr>)
    = initial_refs\<lparr>speed := - c,
        velocity := Vec3 0 (c - 0.08 + c * c / 120 + (c * c * 0.0005 + 0.001)) 0\<rparr>"
  using assms
  by (simp add: after_forces_def after_brake_def brake_branch_def
      initial_refs_def integrate_velocity_def thrustVal0_def
      avgThrottle_def totalThrustPercent_def frame_forward_def frame_up_def gravityVector_def
      liftVector_def effectiveLift_def liftFactor_def maxSpeedForCalc_def dragVector_def
      dragVal_def normalize3_def MAX_THRUST_def GRAVITY_def LIFT_COEFFICIENT_def
      DRAG_COEFFICIENT_def MAX_SPEED_def field_simps)


lemma touchdown_step:
  assumes c: "c < 0" and d: "c - 0.08 + c * c / 120 + (c * c * 0.0005 + 0.001) < 0"
  shows "physics_calculation
      \<lparr>thrustMult = 1, liftMult = 1, dragMult = 1, turnSpeedMult = 1, maxSpeedMult = 1,
       engineCount = 1\<rparr>
      \<lparr>pitch = 0, roll = 0, yaw = 0, throttles = [0], brake = False, flaps = 0,
       gear = True\<rparr>
      (1 / 60) (initial_refs\<lparr>velocity := Vec3 0 c 0\<rparr>)
    = initial_refs\<lparr>speed := - c\<rparr>"
proof -
  let ?cfg = "\<lparr>thrustMult = 1, liftMult = 1, dragMult = 1, turnSpeedMult = 1,
         maxSpeedMult = 1, engineCount = 1\<rparr> :: AircraftConfig"
  let ?ctl = "\<lparr>pitch = 0, roll = 0, yaw = 0, throttles = [0], brake = False, flaps = 0,
         gear = True\<rparr> :: ControlState"
  let ?r0 = "initial_refs\<lparr>velocity := Vec3 0 c 0\<rparr>"
  have g: "isOnGround ?r0" by (simp add: isOnGround_def initial_refs_def)
  have cl: "ground_clamp (after_forces ?cfg ?ctl (1 / 60) ?r0) = initial_refs\<lparr>speed := - c\<rparr>"
  proof -
    have "ground_clamp (after_forces ?cfg ?ctl (1 / 60) ?r0)
            = ground_clamp (initial_refs\<lparr>speed := - c,
                velocity := Vec3 0 (c - 0.08 + c * c / 120 + (c * c * 0.0005 + 0.001)) 0\<rparr>)"
      by (simp only: touchdown_after_forces [OF c])
    also have "\<dots> = initial_refs\<lparr>speed := - c\<rparr>"
      using d by (simp add: ground_clamp_def Let_def initial_refs_def)
    finally show ?thesis .
  qed
  have n: "neutral ?ctl" by (simp add: neutral_def)
  have rot: "rotation_control ?cfg ?ctl (1 / 60) True f u rt r = r" for f u rt r
    by (simp add: rotation_control_def Let_def pitchAmt_def rollAmt_def yawAmt_def
        neutral_sums [OF n])
  have "physics_calculation ?cfg ?ctl (1 / 60) ?r0
          = integrate_position (1 / 60) (initial_refs\<lparr>speed := - c\<rparr>)"
    using g by (simp add: physics_calculation_def Let_def cl rot stability_def)
  also have "\<dots> = initial_refs\<lparr>speed := - c\<rparr>"
    by (simp add: integrate_position_def initial_refs_def)
  finally show ?thesis .
qed

text \<open>
  C3 as stated fails. Two touchdowns of the trainer, with sink rates 1 and 2 and the same
  neutral controls, end the frame in the same position, orientation and velocity (at rest
  on the runway), yet the two telemetry objects differ: they report the speeds 1 and 2.
  The reported speed 1 is not the length of the updated velocity, which is 0.
\<close>

theorem telemetry_speed_counterexample:
  "velocity (fst (useFrame
       \<lparr>thrustMult = 1, liftMult = 1, dragMult = 1, turnSpeedMult = 1, maxSpeedMult = 1,
        engineCount = 1\<rparr>
       \<lparr>pitch = 0, roll = 0, yaw = 0, throttles = [0], brake = False, flaps = 0,
        gear = True\<rparr>
       (1 / 60) (initial_refs\<lparr>velocity := Vec3 0 (- 1) 0\<rparr>)))
     = velocity (fst (useFrame
       \<lparr>thrustMult = 1, liftMult = 1, dragMult = 1, turnSpeedMult = 1, maxSpeedMult = 1,
        engineCount = 1\<rparr>
       \<lparr>pitch = 0, roll = 0, yaw = 0, throttles = [0], brake = False, flaps = 0,
        gear = True\<rparr>
       (1 / 60) (initial_refs\<lparr>velocity := Vec3 0 (- 2) 0\<rparr>)))
   \<and> position (fst (useFrame
       \<lparr>thrustMult = 1, liftMult = 1, dragMult = 1, turnSpeedMult = 1, maxSpeedMult = 1,
        engineCount = 1\<rparr>
       \<lparr>pitch = 0, roll = 0, yaw = 0, throttles = [0], brake = False, flaps = 0,
        gear = True\<rparr>
       (1 / 60) (initial_refs\<lparr>velocity := Vec3 0 (- 1) 0\<rparr>)))
     = position (fst (useFrame
       \<lparr>thrustMult = 1, liftMult = 1, dragMult = 1, turnSpeedMult = 1, maxSpeedMult = 1,
        engineCount = 1\<rparr>
       \<lparr>pitch = 0, roll = 0, yaw = 0, throttles = [0], brake = False, flaps = 0,
        gear = True\<rparr>
       (1 / 60) (initial_refs\<lparr>velocity := Vec3 0 (- 2) 0\<rparr>)))
   \<and> quaternion (fst (useFrame
       \<lparr>thrustMult = 1, liftMult = 1, dragMult = 1, turnSpeedMult = 1, maxSpeedMult = 1,
        engineCount = 1\<rparr>
       \<lparr>pitch = 0, roll = 0, yaw = 0, throttles = [0], brake = False, flaps = 0,
        gear = True\<rparr>
       (1 / 60) (initial_refs\<lparr>velocity := Vec3 0 (- 1) 0\<rparr>)))
     = quaternion (fst (useFrame
       \<lparr>thrustMult = 1, liftMult = 1, dragMult = 1, turnSpeedMult = 1, maxSpeedMult = 1,
        engineCount = 1\<rparr>
       \<lparr>pitch = 0, roll = 0, yaw = 0, throttles = [0], brake = False, flaps = 0,
        gear = True\<rparr>
       (1 / 60) (initial_refs\<lparr>velocity := Vec3 0 (- 2) 0\<rparr>)))
   \<and> snd (useFrame
       \<lparr>thrustMult = 1, liftMult = 1, dragMult = 1, turnSpeedMult = 1, maxSpeedMult = 1,
        engineCount = 1\<rparr>
       \<lparr>pitch = 0, roll = 0, yaw = 0, throttles = [0], brake = False, flaps = 0,
        gear = True\<rparr>
       (1 / 60) (initial_refs\<lparr>velocity := Vec3 0 (- 1) 0\<rparr>))
     \<noteq> snd (useFrame
       \<lparr>thrustMult = 1, liftMult = 1, dragMult = 1, turnSpeedMult = 1, maxSpeedMult = 1,
        engineCount = 1\<rparr>
       \<lparr>pitch = 0, roll = 0, yaw = 0, throttles = [0], brake = False, flaps = 0,
        gear = True\<rparr>
       (1 / 60) (initial_refs\<lparr>velocity := Vec3 0 (- 2) 0\<rparr>))
   \<and> fd_velocity (snd (useFrame
       \<lparr>thrustMult = 1, liftMult = 1, dragMult = 1, turnSpeedMult = 1, maxSpeedMult = 1,
        engineCount = 1\<rparr>
       \<lparr>pitch = 0, roll = 0, yaw = 0, throttles = [0], brake = False, flaps = 0,
        gear = True\<rparr>
       (1 / 60) (initial_refs\<lparr>velocity := Vec3 0 (- 1) 0\<rparr>)))
     \<noteq> length3 (velocity (fst (useFrame
       \<lparr>thrustMult = 1, liftMult = 1, dragMult = 1, turnSpeedMult = 1, maxSpeedMult = 1,
        engineCount = 1\<rparr>
       \<lparr>pitch = 0, roll = 0, yaw = 0, throttles = [0], brake = False, flaps = 0,
        gear = True\<rparr>
       (1 / 60) (initial_refs\<lparr>velocity := Vec3 0 (- 1) 0\<rparr>))))"
proof -
  have A: "physics_calculation
      \<lparr>thrustMult = 1, liftMult = 1, dragMult = 1, turnSpeedMult = 1, maxSpeedMult = 1,
       engineCount = 1\<rparr>
      \<lparr>pitch = 0, roll = 0, yaw = 0, throttles = [0], brake = False, flaps = 0,
       gear = True\<rparr>
      (1 / 60) (initial_refs\<lparr>velocity := Vec3 0 (- 1) 0\<rparr>) = initial_refs\<lparr>speed := 1\<rparr>"
    using touchdown_step [of "- 1"] by simp
  have B: "physics_calculation
      \<lparr>thrustMult = 1, liftMult = 1, dragMult = 1, turnSpeedMult = 1, maxSpeedMult = 1,
       engineCount = 1\<rparr>
      \<lparr>pitch = 0, roll = 0, yaw = 0, throttles = [0], brake = False, flaps = 0,
       gear = True\<rparr>
      (1 / 60) (initial_refs\<lparr>velocity := Vec3 0 (- 2) 0\<rparr>) = initial_refs\<lparr>speed := 2\<rparr>"
    using touchdown_step [of "- 2"] by simp
  show ?thesis
    unfolding useFrame_def Let_def A B fst_conv snd_conv
    by (simp add: onUpdate_data_def initial_refs_def)
qed

end
